theory Spec2Isabelle
  imports Complex_Main
begin

section \<open>The multi-network faucet component (src/app/components/MCF.tsx)\<close>

text \<open>
  The component owns one React state object and updates it only through
  \<open>updateState\<close>, a shallow merge of a partial object into the latest state.
  Event handlers read the state of the render they were created in (the closure's
  \<open>state\<close>) and write through \<open>updateState\<close>; the embedding keeps the two apart.
  JavaScript numbers are modelled by \<open>real\<close> (amounts, balances) and by \<open>int\<close>
  (the request counter, which only ever holds small integers); the rounding of
  IEEE doubles is not modelled.
\<close>

subsection \<open>Configuration tables\<close>

datatype NetworkKey = solana | ethereum | polygon | bsc

record NetworkInfo =
  name :: string
  symbol :: string
  decimals :: nat
  explorer :: string

fun networks :: "NetworkKey \<Rightarrow> NetworkInfo" where
  "networks solana =
     \<lparr>name = ''Solana'', symbol = ''SOL'', decimals = 9,
      explorer = ''https://explorer.solana.com''\<rparr>"
| "networks ethereum =
     \<lparr>name = ''Ethereum'', symbol = ''ETH'', decimals = 18,
      explorer = ''https://goerli.etherscan.io''\<rparr>"
| "networks polygon =
     \<lparr>name = ''Polygon'', symbol = ''MATIC'', decimals = 18,
      explorer = ''https://mumbai.polygonscan.com''\<rparr>"
| "networks bsc =
     \<lparr>name = ''Binance Smart Chain'', symbol = ''BNB'', decimals = 18,
      explorer = ''https://testnet.bscscan.com''\<rparr>"

fun tokenOptions :: "NetworkKey \<Rightarrow> real list" where
  "tokenOptions solana = [0.1, 0.5, 1]"
| "tokenOptions ethereum = [0.01, 0.05, 0.1]"
| "tokenOptions polygon = [0.1, 0.5, 1]"
| "tokenOptions bsc = [0.01, 0.05, 0.1]"

text \<open>The constant \<open>LAMPORTS_PER_SOL\<close> exported by the Solana client library.\<close>

definition LAMPORTS_PER_SOL :: real where
  "LAMPORTS_PER_SOL = 1000000000"

subsection \<open>The state object\<close>

text \<open>
  The fields of \<open>Transaction\<close> carry the prefix \<open>tx_\<close> because \<open>network\<close> and
  \<open>amount\<close> are also fields of the state object.
\<close>

record Transaction =
  tx_hash :: string
  tx_network :: NetworkKey
  tx_amount :: real
  tx_timestamp :: string

datatype NetworkStatusValue = online | maintenance | offline

record state =
  address :: string
  status :: string
  isLoading :: bool
  network :: NetworkKey
  amount :: real
  balance :: "real option"
  transactions :: "Transaction list"
  isDarkMode :: bool
  isLoggedIn :: bool
  username :: string
  password :: string
  dailyRequestsLeft :: int
  captchaValue :: string
  faucetBalance :: "NetworkKey \<Rightarrow> real"
  networkStatus :: "NetworkKey \<Rightarrow> NetworkStatusValue"

text \<open>The argument of \<open>useState\<close>: the state of the first render.\<close>

definition initial_state :: state where
  "initial_state =
     \<lparr>address = '''', status = '''', isLoading = False, network = solana,
      amount = tokenOptions solana ! 0, balance = None, transactions = [],
      isDarkMode = False, isLoggedIn = False, username = '''', password = '''',
      dailyRequestsLeft = 5, captchaValue = '''',
      faucetBalance = (\<lambda>k. case k of solana \<Rightarrow> 1000 | ethereum \<Rightarrow> 10
                                | polygon \<Rightarrow> 1000 | bsc \<Rightarrow> 100),
      networkStatus = (\<lambda>k. case k of bsc \<Rightarrow> maintenance | _ \<Rightarrow> online)\<rparr>"

text \<open>
  A partial state object (\<open>Partial<typeof state>\<close>) is a list of its keys with their
  values; \<open>merge\<close> is the spread \<open>{ ...prev, ...updates }\<close>. No handler of the
  component ever writes \<open>networkStatus\<close>, so it has no key here.
\<close>

datatype update =
    Address string
  | Status string
  | IsLoading bool
  | Network NetworkKey
  | Amount real
  | Balance "real option"
  | Transactions "Transaction list"
  | IsDarkMode bool
  | IsLoggedIn bool
  | Username string
  | Password string
  | DailyRequestsLeft int
  | CaptchaValue string
  | FaucetBalance "NetworkKey \<Rightarrow> real"

fun assign :: "update \<Rightarrow> state \<Rightarrow> state" where
  "assign (Address v) s = s\<lparr>address := v\<rparr>"
| "assign (Status v) s = s\<lparr>status := v\<rparr>"
| "assign (IsLoading v) s = s\<lparr>isLoading := v\<rparr>"
| "assign (Network v) s = s\<lparr>network := v\<rparr>"
| "assign (Amount v) s = s\<lparr>amount := v\<rparr>"
| "assign (Balance v) s = s\<lparr>balance := v\<rparr>"
| "assign (Transactions v) s = s\<lparr>transactions := v\<rparr>"
| "assign (IsDarkMode v) s = s\<lparr>isDarkMode := v\<rparr>"
| "assign (IsLoggedIn v) s = s\<lparr>isLoggedIn := v\<rparr>"
| "assign (Username v) s = s\<lparr>username := v\<rparr>"
| "assign (Password v) s = s\<lparr>password := v\<rparr>"
| "assign (DailyRequestsLeft v) s = s\<lparr>dailyRequestsLeft := v\<rparr>"
| "assign (CaptchaValue v) s = s\<lparr>captchaValue := v\<rparr>"
| "assign (FaucetBalance v) s = s\<lparr>faucetBalance := v\<rparr>"

definition merge :: "state \<Rightarrow> update list \<Rightarrow> state" where
  "merge prev updates = fold assign updates prev"

subsection \<open>Library calls, timers and suspended calls\<close>

text \<open>
  What the component takes from outside is a parameter of the model:
  \<open>PublicKey\<close> is the address parser of the Solana client (\<open>Inl\<close> the message it
  throws on malformed input), \<open>id_now t\<close> is \<open>id(Date.now().toString())\<close> and
  \<open>toLocaleString t\<close> is \<open>new Date().toLocaleString()\<close>, both read at time \<open>t\<close>.
\<close>

record lib =
  PublicKey :: "string \<Rightarrow> string + string"
  id_now :: "nat \<Rightarrow> string"
  toLocaleString :: "nat \<Rightarrow> string"

text \<open>
  The closures handed to \<open>setTimeout\<close>, with the variables they capture:
  \<open>() => updateState({ status: '' })\<close> captures nothing; the \<open>resolve\<close> of the
  2000 ms promise resumes \<open>handleSubmit\<close>, which holds the \<open>state\<close> of its render
  and \<open>txHash\<close>.
\<close>

datatype callback =
    ClearStatus
  | ResolveDelay state string

text \<open>
  A call suspended at an \<open>await\<close> on the Solana client: \<open>handleSubmit\<close> at
  \<open>requestAirdrop\<close> or at \<open>confirmTransaction\<close> (with the \<open>state\<close> of its render),
  or \<open>checkBalance\<close> at \<open>getBalance\<close>; the flag says that \<open>handleSubmit\<close> awaits
  this \<open>checkBalance\<close> and runs its \<open>finally\<close> block afterwards.
\<close>

datatype task =
    RequestAirdrop state
  | ConfirmTransaction state string
  | GetBalance bool

text \<open>How a promise of the client settles; a rejection carries the error.\<close>

datatype reply =
    Rejected string
  | Signature string
  | Confirmed
  | Lamports real

text \<open>
  The component at run time: the state object, the \<open>mounted\<close> flag, the dependency
  array \<open>[state.network, mounted]\<close> as the last run of the network effect saw it, the
  time in milliseconds, the pending timers (due time and callback, in the order
  they were set) and the suspended calls.
\<close>

record system =
  st :: state
  mounted :: bool
  deps :: "NetworkKey \<times> bool"
  clock :: nat
  timers :: "(nat \<times> callback) list"
  tasks :: "task list"

definition initial :: system where
  "initial =
     \<lparr>st = initial_state, mounted = False, deps = (solana, False), clock = 0,
      timers = [], tasks = []\<rparr>"

definition updateState :: "update list \<Rightarrow> system \<Rightarrow> system" where
  "updateState updates sys = sys\<lparr>st := merge (st sys) updates\<rparr>"

definition setTimeout :: "callback \<Rightarrow> nat \<Rightarrow> system \<Rightarrow> system" where
  "setTimeout handler ms sys = sys\<lparr>timers := timers sys @ [(clock sys + ms, handler)]\<rparr>"

subsection \<open>The handlers\<close>

definition handleLogin :: "system \<Rightarrow> system" where
  "handleLogin sys =
     (let state = st sys in
      if username state = ''demo'' \<and> password state = ''password''
      then updateState [IsLoggedIn True, DailyRequestsLeft 5] sys
      else setTimeout ClearStatus 3000 (updateState [Status ''error''] sys))"

definition handleLogout :: "system \<Rightarrow> system" where
  "handleLogout sys = updateState [IsLoggedIn False, Username '''', Password ''''] sys"

text \<open>
  The \<open>catch\<close> and \<open>finally\<close> blocks of \<open>handleSubmit\<close>. The caught error goes
  to the console only.
\<close>

definition handleSubmit_catch :: "string \<Rightarrow> system \<Rightarrow> system" where
  "handleSubmit_catch error sys = updateState [Status ''error''] sys"

definition handleSubmit_finally :: "system \<Rightarrow> system" where
  "handleSubmit_finally sys = updateState [IsLoading False, CaptchaValue ''''] sys"

text \<open>
  What runs once \<open>checkBalance\<close> has returned: the \<open>finally\<close> block when
  \<open>handleSubmit\<close> awaited it, nothing when the button called it.
\<close>

definition returned :: "bool \<Rightarrow> system \<Rightarrow> system" where
  "returned awaited sys = (if awaited then handleSubmit_finally sys else sys)"

text \<open>
  \<open>checkBalance\<close> up to its first suspension. The result is the system and the
  suspended rest of the call, if any.
\<close>

definition checkBalance :: "lib \<Rightarrow> bool \<Rightarrow> state \<Rightarrow> system \<Rightarrow> system \<times> task option" where
  "checkBalance L awaited state sys =
     (if network state = solana then
        (case PublicKey L (address state) of
           Inl error \<Rightarrow> (returned awaited (updateState [Balance None] sys), None)
         | Inr publicKey \<Rightarrow> (sys, Some (GetBalance awaited)))
      else (returned awaited (updateState [Balance (Some (1 * 10))] sys), None))"

text \<open>\<open>handleSubmit\<close> from the construction of \<open>newTransaction\<close> on.\<close>

definition handleSubmit_success :: "lib \<Rightarrow> state \<Rightarrow> string \<Rightarrow> system \<Rightarrow> system \<times> task option" where
  "handleSubmit_success L state txHash sys =
     (let newTransaction =
            \<lparr>tx_hash = txHash, tx_network = network state, tx_amount = amount state,
             tx_timestamp = toLocaleString L (clock sys)\<rparr>;
          sys = updateState
                  [Status ''success'',
                   Transactions (newTransaction # transactions state),
                   DailyRequestsLeft (dailyRequestsLeft state - 1),
                   FaucetBalance ((faucetBalance state)
                     (network state := faucetBalance state (network state) - amount state))]
                  sys
      in checkBalance L True state sys)"

text \<open>\<open>handleSubmit\<close> up to its first suspension.\<close>

definition handleSubmit :: "lib \<Rightarrow> system \<Rightarrow> system \<times> task option" where
  "handleSubmit L sys =
     (let state = st sys in
      if \<not> isLoggedIn state \<or> dailyRequestsLeft state \<le> 0 \<or> captchaValue state \<noteq> ''12345''
      then (setTimeout ClearStatus 3000 (updateState [Status ''error''] sys), None)
      else
        let sys = updateState [IsLoading True, Status ''''] sys in
        if network state = solana then
          (case PublicKey L (address state) of
             Inl error \<Rightarrow> (handleSubmit_finally (handleSubmit_catch error sys), None)
           | Inr publicKey \<Rightarrow> (sys, Some (RequestAirdrop state)))
        else (setTimeout (ResolveDelay state (id_now L (clock sys))) 2000 sys, None))"

text \<open>
  A suspended call resumes when its promise settles. A reply of the wrong kind for
  the call leaves it suspended.
\<close>

fun resume :: "lib \<Rightarrow> task \<Rightarrow> reply \<Rightarrow> system \<Rightarrow> system \<times> task option" where
  "resume L (RequestAirdrop state) (Signature txHash) sys =
     (sys, Some (ConfirmTransaction state txHash))"
| "resume L (RequestAirdrop state) (Rejected error) sys =
     (handleSubmit_finally (handleSubmit_catch error sys), None)"
| "resume L (ConfirmTransaction state txHash) Confirmed sys =
     handleSubmit_success L state txHash sys"
| "resume L (ConfirmTransaction state txHash) (Rejected error) sys =
     (handleSubmit_finally (handleSubmit_catch error sys), None)"
| "resume L (GetBalance awaited) (Lamports lamports) sys =
     (returned awaited (updateState [Balance (Some (lamports / LAMPORTS_PER_SOL))] sys), None)"
| "resume L (GetBalance awaited) (Rejected error) sys =
     (returned awaited (updateState [Balance None] sys), None)"
| "resume L t r sys = (sys, Some t)"

text \<open>A newly suspended call joins the suspended calls.\<close>

fun spawn :: "system \<times> task option \<Rightarrow> system" where
  "spawn (sys, None) = sys"
| "spawn (sys, Some t) = sys\<lparr>tasks := tasks sys @ [t]\<rparr>"

text \<open>The promise of the \<open>i\<close>-th suspended call settles.\<close>

definition settle :: "lib \<Rightarrow> nat \<Rightarrow> reply \<Rightarrow> system \<Rightarrow> system" where
  "settle L i r sys =
     (if i < length (tasks sys) then
        (case resume L (tasks sys ! i) r sys of
           (sys', Some t) \<Rightarrow> sys'\<lparr>tasks := (tasks sys')[i := t]\<rparr>
         | (sys', None) \<Rightarrow> sys'\<lparr>tasks := take i (tasks sys') @ drop (Suc i) (tasks sys')\<rparr>)
      else sys)"

subsection \<open>Timers\<close>

fun fire :: "lib \<Rightarrow> callback \<Rightarrow> system \<Rightarrow> system" where
  "fire L ClearStatus sys = updateState [Status ''''] sys"
| "fire L (ResolveDelay state txHash) sys = spawn (handleSubmit_success L state txHash sys)"

text \<open>
  One millisecond passes; the timers now due run in the order they were set.
\<close>

definition tick :: "lib \<Rightarrow> system \<Rightarrow> system" where
  "tick L sys =
     (let now = clock sys + 1;
          due = filter (\<lambda>t. fst t \<le> now) (timers sys);
          later = filter (\<lambda>t. \<not> fst t \<le> now) (timers sys)
      in fold (fire L) (map snd due) (sys\<lparr>clock := now, timers := later\<rparr>))"

fun advance :: "lib \<Rightarrow> nat \<Rightarrow> system \<Rightarrow> system" where
  "advance L 0 sys = sys"
| "advance L (Suc n) sys = advance L n (tick L sys)"

subsection \<open>Rendering and events\<close>

text \<open>
  The effect with the dependencies \<open>[state.network, mounted]\<close> runs after a render
  in which one of them differs from the previous render; its body resets the amount
  once the component is mounted. \<open>commit\<close> is the render that follows a change of
  the state, with this effect.
\<close>

definition commit :: "system \<Rightarrow> system" where
  "commit sys =
     (let d = (network (st sys), mounted sys) in
      if d = deps sys then sys
      else
        let sys = sys\<lparr>deps := d\<rparr> in
        if mounted sys
        then sys\<lparr>st := merge (st sys) [Amount (tokenOptions (network (st sys)) ! 0)]\<rparr>
        else sys)"

text \<open>
  What can happen to the component: the mount effect, an input or a selection
  changing, a form or a button, a promise of the client settling, time passing.
  The view offers the handlers only in some states (the login form when logged out,
  the submit button when idle); the model lets every event happen in every state.
\<close>

datatype event =
    Mount
  | ChangeUsername string
  | ChangePassword string
  | ChangeAddress string
  | ChangeCaptcha string
  | SelectNetwork NetworkKey
  | SelectAmount real
  | SwitchDarkMode bool
  | Login
  | Logout
  | Submit
  | CheckBalance
  | Settle nat reply
  | Elapse nat

fun handle :: "lib \<Rightarrow> event \<Rightarrow> system \<Rightarrow> system" where
  "handle L Mount sys = sys\<lparr>mounted := True\<rparr>"
| "handle L (ChangeUsername v) sys = updateState [Username v] sys"
| "handle L (ChangePassword v) sys = updateState [Password v] sys"
| "handle L (ChangeAddress v) sys = updateState [Address v] sys"
| "handle L (ChangeCaptcha v) sys = updateState [CaptchaValue v] sys"
| "handle L (SelectNetwork v) sys = updateState [Network v] sys"
| "handle L (SelectAmount v) sys = updateState [Amount v] sys"
| "handle L (SwitchDarkMode v) sys = updateState [IsDarkMode v] sys"
| "handle L Login sys = handleLogin sys"
| "handle L Logout sys = handleLogout sys"
| "handle L Submit sys = spawn (handleSubmit L sys)"
| "handle L CheckBalance sys = spawn (checkBalance L False (st sys) sys)"
| "handle L (Settle i r) sys = settle L i r sys"
| "handle L (Elapse n) sys = advance L n sys"

definition step :: "lib \<Rightarrow> event \<Rightarrow> system \<Rightarrow> system" where
  "step L e sys = commit (handle L e sys)"

definition run :: "lib \<Rightarrow> event list \<Rightarrow> system \<Rightarrow> system" where
  "run L es sys = fold (step L) es sys"

subsection \<open>One call from start to completion\<close>

text \<open>
  How the three promises of the Solana client settle for one call: each is
  rejected with an error or fulfilled.
\<close>

record replies =
  requestAirdrop :: "string + string"
  confirmTransaction :: "string + unit"
  getBalance :: "string + real"

fun airdrop_reply :: "string + string \<Rightarrow> reply" where
  "airdrop_reply (Inl error) = Rejected error"
| "airdrop_reply (Inr txHash) = Signature txHash"

fun confirm_reply :: "string + unit \<Rightarrow> reply" where
  "confirm_reply (Inl error) = Rejected error"
| "confirm_reply (Inr u) = Confirmed"

fun balance_reply :: "string + real \<Rightarrow> reply" where
  "balance_reply (Inl error) = Rejected error"
| "balance_reply (Inr lamports) = Lamports lamports"

text \<open>
  One call of \<open>handleSubmit\<close> with nothing else happening meanwhile: on solana the
  promises of the call settle one after the other as far as the call gets; on the
  other networks the 2000 ms of the simulated delay pass.
\<close>

definition handleSubmit_call :: "lib \<Rightarrow> replies \<Rightarrow> system \<Rightarrow> system" where
  "handleSubmit_call L R sys =
     (let i = length (tasks sys);
          sys' = spawn (handleSubmit L sys)
      in if network (st sys) = solana
         then settle L i (balance_reply (getBalance R))
                (settle L i (confirm_reply (confirmTransaction R))
                  (settle L i (airdrop_reply (requestAirdrop R)) sys'))
         else advance L 2000 sys')"

text \<open>One call of \<open>checkBalance\<close> from its button, likewise.\<close>

definition checkBalance_call :: "lib \<Rightarrow> string + real \<Rightarrow> system \<Rightarrow> system" where
  "checkBalance_call L r sys =
     (let i = length (tasks sys)
      in settle L i (balance_reply r) (spawn (checkBalance L False (st sys) sys)))"

subsection \<open>Requests in flight\<close>

text \<open>
  No simulated request is waiting for its delay: every pending timer is one that
  clears the status.
\<close>

definition no_delay_pending :: "system \<Rightarrow> bool" where
  "no_delay_pending sys = list_all (\<lambda>t. snd t = ClearStatus) (timers sys)"

text \<open>
  The state captured by a request in flight passed the check
  \<open>dailyRequestsLeft <= 0\<close> of \<open>handleSubmit\<close>.
\<close>

fun task_checked :: "task \<Rightarrow> bool" where
  "task_checked (RequestAirdrop state) = (0 < dailyRequestsLeft state)"
| "task_checked (ConfirmTransaction state txHash) = (0 < dailyRequestsLeft state)"
| "task_checked (GetBalance awaited) = True"

fun callback_checked :: "callback \<Rightarrow> bool" where
  "callback_checked ClearStatus = True"
| "callback_checked (ResolveDelay state txHash) = (0 < dailyRequestsLeft state)"

definition quota_inv :: "system \<Rightarrow> bool" where
  "quota_inv sys \<longleftrightarrow>
     0 \<le> dailyRequestsLeft (st sys) \<and> list_all task_checked (tasks sys) \<and>
     list_all (\<lambda>t. callback_checked (snd t)) (timers sys)"

text \<open>The effects of the last render have run, on the mounted component.\<close>

definition rendered :: "system \<Rightarrow> bool" where
  "rendered sys \<longleftrightarrow> mounted sys \<and> deps sys = (network (st sys), True)"

subsection \<open>Examples\<close>

text \<open>
  A client library for the examples: an address of 32 to 44 characters parses,
  anything else is refused.
\<close>

definition example_lib :: lib where
  "example_lib =
     \<lparr>PublicKey = (\<lambda>a. if 32 \<le> length a \<and> length a \<le> 44 then Inr a
                        else Inl ''Invalid public key input''),
      id_now = (\<lambda>t. ''0x7d5a''),
      toLocaleString = (\<lambda>t. ''11/3/2026, 9:00:00 AM'')\<rparr>"

definition example_address :: string where
  "example_address = ''4Nd1mBQtrMJVYVfKf2PJy9NZUZdTAsp7D4xWLs4gDB4T''"

text \<open>
  A session for the examples: the demo user is logged in on the mounted component,
  has typed an address and the captcha, and has a given number of requests left on
  a given network.
\<close>

definition example_session :: "NetworkKey \<Rightarrow> int \<Rightarrow> system" where
  "example_session k n =
     initial\<lparr>mounted := True, deps := (k, True),
       st := initial_state\<lparr>isLoggedIn := True, username := ''demo'',
               password := ''password'', network := k, amount := tokenOptions k ! 0,
               address := example_address, captchaValue := ''12345'',
               dailyRequestsLeft := n\<rparr>\<rparr>"

text \<open>The same session on solana with five requests left and a nearly empty pool.\<close>

definition example_drained :: system where
  "example_drained = updateState [FaucetBalance (\<lambda>k. 0.05)] (example_session solana 5)"

text \<open>How the client answers in the examples: everything is fulfilled.\<close>

definition example_replies :: replies where
  "example_replies =
     \<lparr>requestAirdrop = Inr ''5VERv8NMvzbJMEkV8xnrLkEaWRtSz9CosKDYjCJjBRnb'',
      confirmTransaction = Inr (), getBalance = Inr 2000000000\<rparr>"

text \<open>
  The examples of the status notification, from the first render on: a request on
  solana that the client rejects, and a login with a wrong password.
\<close>

definition rejected_request :: "event list" where
  "rejected_request =
     [Mount, ChangeUsername ''demo'', ChangePassword ''password'', Login,
      ChangeAddress example_address, ChangeCaptcha ''12345'', Submit,
      Settle 0 (Rejected ''429 Too Many Requests'')]"

definition wrong_login :: "event list" where
  "wrong_login = [Mount, ChangeUsername ''demo'', ChangePassword ''Password'', Login]"

text \<open>
  Five requests on solana that the client fulfils, one after the other, and a
  sixth submission, from the first render.
\<close>

definition one_request :: "event list" where
  "one_request =
     [ChangeCaptcha ''12345'', Submit,
      Settle 0 (Signature ''5VERv8NMvzbJMEkV8xnrLkEaWRtSz9CosKDYjCJjBRnb''),
      Settle 0 Confirmed, Settle 0 (Lamports 1000000000)]"

definition six_requests :: "event list" where
  "six_requests =
     [Mount, ChangeUsername ''demo'', ChangePassword ''password'', Login,
      ChangeAddress example_address]
     @ one_request @ one_request @ one_request @ one_request @ one_request
     @ [ChangeCaptcha ''12345'', Submit]"

section \<open>Properties\<close>

subsection \<open>One call of \<open>handleSubmit\<close>\<close>

lemma merge_Nil [simp]: "merge s [] = s"
  by (simp add: merge_def)

lemma merge_Cons [simp]: "merge s (u # us) = merge (assign u s) us"
  by (simp add: merge_def)

lemma handleSubmit_refused:
  assumes "\<not> isLoggedIn (st sys) \<or> dailyRequestsLeft (st sys) \<le> 0
            \<or> captchaValue (st sys) \<noteq> ''12345''"
  shows "handleSubmit L sys =
           (sys\<lparr>st := (st sys)\<lparr>status := ''error''\<rparr>,
                timers := timers sys @ [(clock sys + 3000, ClearStatus)]\<rparr>, None)"
  using assms by (auto simp add: handleSubmit_def updateState_def setTimeout_def Let_def)

lemma handleSubmit_solana:
  assumes "isLoggedIn (st sys)" "0 < dailyRequestsLeft (st sys)"
    and "captchaValue (st sys) = ''12345''" and "network (st sys) = solana"
  shows "spawn (handleSubmit L sys) =
           (case PublicKey L (address (st sys)) of
              Inl e \<Rightarrow>
                sys\<lparr>st := (st sys)\<lparr>status := ''error'', isLoading := False,
                                    captchaValue := ''''\<rparr>\<rparr>
            | Inr k \<Rightarrow>
                sys\<lparr>st := (st sys)\<lparr>isLoading := True, status := ''''\<rparr>,
                    tasks := tasks sys @ [RequestAirdrop (st sys)]\<rparr>)"
  using assms
  by (simp add: handleSubmit_def updateState_def handleSubmit_catch_def
      handleSubmit_finally_def Let_def split: sum.split)

lemma handleSubmit_simulated:
  assumes "isLoggedIn (st sys)" "0 < dailyRequestsLeft (st sys)"
    and "captchaValue (st sys) = ''12345''" and "network (st sys) \<noteq> solana"
  shows "spawn (handleSubmit L sys) =
           sys\<lparr>st := (st sys)\<lparr>isLoading := True, status := ''''\<rparr>,
               timers := timers sys @
                 [(clock sys + 2000, ResolveDelay (st sys) (id_now L (clock sys)))]\<rparr>"
  using assms
  by (simp add: handleSubmit_def updateState_def setTimeout_def Let_def)

text \<open>
  The update of a successful request is computed from the state the call was made
  in, whatever the state object holds by then.
\<close>

lemma handleSubmit_success_writes:
  "transactions (st (fst (handleSubmit_success L state txHash sys))) =
     \<lparr>tx_hash = txHash, tx_network = network state, tx_amount = amount state,
      tx_timestamp = toLocaleString L (clock sys)\<rparr> # transactions state
   \<and> dailyRequestsLeft (st (fst (handleSubmit_success L state txHash sys))) =
       dailyRequestsLeft state - 1
   \<and> faucetBalance (st (fst (handleSubmit_success L state txHash sys))) =
       (faucetBalance state)
         (network state := faucetBalance state (network state) - amount state)"
  by (simp add: handleSubmit_success_def checkBalance_def returned_def updateState_def
      handleSubmit_finally_def Let_def split: sum.split)

text \<open>On solana, a rejected promise or a refused address ends the call in \<open>catch\<close>.\<close>

lemma call_solana_failure:
  assumes "isLoggedIn (st sys)" "0 < dailyRequestsLeft (st sys)"
    and "captchaValue (st sys) = ''12345''" and "network (st sys) = solana"
    and "(\<exists>e. PublicKey L (address (st sys)) = Inl e) \<or> (\<exists>e. requestAirdrop R = Inl e)
          \<or> (\<exists>e. confirmTransaction R = Inl e)"
  shows "handleSubmit_call L R sys =
           sys\<lparr>st := (st sys)\<lparr>status := ''error'', isLoading := False,
                               captchaValue := ''''\<rparr>\<rparr>"
proof (cases "PublicKey L (address (st sys))")
  case (Inl e)
  then show ?thesis
    using assms(1-4)
    by (simp add: handleSubmit_call_def handleSubmit_solana settle_def Let_def)
next
  case key: (Inr k)
  show ?thesis
  proof (cases "requestAirdrop R")
    case (Inl e)
    then show ?thesis
      using assms(1-4) key
      by (simp add: handleSubmit_call_def handleSubmit_solana settle_def Let_def
          updateState_def handleSubmit_catch_def handleSubmit_finally_def)
  next
    case h: (Inr h)
    with key assms(5) obtain e where "confirmTransaction R = Inl e" by auto
    then show ?thesis
      using assms(1-4) key h
      by (simp add: handleSubmit_call_def handleSubmit_solana settle_def Let_def
          updateState_def handleSubmit_catch_def handleSubmit_finally_def)
  qed
qed

text \<open>On solana, an accepted address and two fulfilled promises end in the update.\<close>

lemma call_solana_success:
  assumes "isLoggedIn (st sys)" "0 < dailyRequestsLeft (st sys)"
    and "captchaValue (st sys) = ''12345''" and "network (st sys) = solana"
    and "PublicKey L (address (st sys)) = Inr k" and "requestAirdrop R = Inr h"
    and "confirmTransaction R = Inr u"
  shows "handleSubmit_call L R sys =
           sys\<lparr>st := (st sys)
             \<lparr>status := ''success'',
              transactions :=
                \<lparr>tx_hash = h, tx_network = solana, tx_amount = amount (st sys),
                 tx_timestamp = toLocaleString L (clock sys)\<rparr> # transactions (st sys),
              dailyRequestsLeft := dailyRequestsLeft (st sys) - 1,
              faucetBalance := (faucetBalance (st sys))
                (solana := faucetBalance (st sys) solana - amount (st sys)),
              balance := (case getBalance R of Inl e \<Rightarrow> None
                          | Inr b \<Rightarrow> Some (b / LAMPORTS_PER_SOL)),
              isLoading := False, captchaValue := ''''\<rparr>\<rparr>"
  using assms
  by (cases "getBalance R")
     (simp_all add: handleSubmit_call_def handleSubmit_solana settle_def Let_def
          updateState_def handleSubmit_success_def checkBalance_def returned_def
          handleSubmit_finally_def)

text \<open>Timers that clear the status change nothing but the status.\<close>

lemma fold_fire_clear:
  assumes "list_all (\<lambda>t. snd t = ClearStatus) cs"
  shows "\<exists>v. fold (fire L) (map snd cs) sys = sys\<lparr>st := (st sys)\<lparr>status := v\<rparr>\<rparr>"
  using assms
proof (induction cs arbitrary: sys)
  case Nil
  show ?case by (rule exI [of _ "status (st sys)"]) simp
next
  case (Cons c cs)
  then obtain v where
    "fold (fire L) (map snd cs) (fire L ClearStatus sys)
       = (fire L ClearStatus sys)\<lparr>st := (st (fire L ClearStatus sys))\<lparr>status := v\<rparr>\<rparr>"
    by auto
  with Cons.prems show ?case
    by (intro exI [of _ v]) (simp add: updateState_def)
qed

lemma fire_ResolveDelay_simulated:
  assumes "network state \<noteq> solana"
  shows "fire L (ResolveDelay state txHash) sys =
           sys\<lparr>st := (st sys)
             \<lparr>status := ''success'',
              transactions :=
                \<lparr>tx_hash = txHash, tx_network = network state, tx_amount = amount state,
                 tx_timestamp = toLocaleString L (clock sys)\<rparr> # transactions state,
              dailyRequestsLeft := dailyRequestsLeft state - 1,
              faucetBalance := (faucetBalance state)
                (network state := faucetBalance state (network state) - amount state),
              balance := Some 10,
              isLoading := False, captchaValue := ''''\<rparr>\<rparr>"
  using assms
  by (simp add: handleSubmit_success_def checkBalance_def returned_def updateState_def
      handleSubmit_finally_def Let_def)

text \<open>
  A simulated request asleep among status timers wakes up when its delay has
  passed, and its update overwrites the status.
\<close>

lemma advance_delay:
  assumes "timers sys = cs @ [(D, ResolveDelay state txHash)]"
    and "list_all (\<lambda>t. snd t = ClearStatus) cs"
    and "D = clock sys + Suc n"
    and "network state \<noteq> solana"
  shows "advance L (Suc n) sys =
           sys\<lparr>st := (st sys)
             \<lparr>status := ''success'',
              transactions :=
                \<lparr>tx_hash = txHash, tx_network = network state, tx_amount = amount state,
                 tx_timestamp = toLocaleString L D\<rparr> # transactions state,
              dailyRequestsLeft := dailyRequestsLeft state - 1,
              faucetBalance := (faucetBalance state)
                (network state := faucetBalance state (network state) - amount state),
              balance := Some 10,
              isLoading := False, captchaValue := ''''\<rparr>,
             clock := D,
             timers := filter (\<lambda>t. \<not> fst t \<le> D) cs\<rparr>"
  using assms
proof (induction n arbitrary: sys cs)
  case 0
  let ?due = "filter (\<lambda>t. fst t \<le> D) cs"
  let ?sys = "sys\<lparr>clock := D, timers := filter (\<lambda>t. \<not> fst t \<le> D) cs\<rparr>"
  from 0 have "list_all (\<lambda>t. snd t = ClearStatus) ?due"
    by (simp add: list_all_iff)
  from fold_fire_clear [OF this, of L ?sys]
  obtain v where
    v: "fold (fire L) (map snd ?due) ?sys = ?sys\<lparr>st := (st ?sys)\<lparr>status := v\<rparr>\<rparr>"
    by blast
  have "tick L sys = fire L (ResolveDelay state txHash) (fold (fire L) (map snd ?due) ?sys)"
    using 0 by (simp add: tick_def Let_def)
  also have "\<dots> = fire L (ResolveDelay state txHash) (?sys\<lparr>st := (st ?sys)\<lparr>status := v\<rparr>\<rparr>)"
    by (simp only: v)
  finally have
    "tick L sys = fire L (ResolveDelay state txHash) (?sys\<lparr>st := (st ?sys)\<lparr>status := v\<rparr>\<rparr>)" .
  with 0 show ?case
    by (intro system.equality)
       (simp_all add: fire_ResolveDelay_simulated fun_upd_def del: fire.simps)
next
  case (Suc n)
  let ?now = "clock sys + 1"
  let ?due = "filter (\<lambda>t. fst t \<le> ?now) cs"
  let ?later = "filter (\<lambda>t. \<not> fst t \<le> ?now) cs"
  let ?sys = "sys\<lparr>clock := ?now, timers := ?later @ [(D, ResolveDelay state txHash)]\<rparr>"
  from Suc.prems have due: "list_all (\<lambda>t. snd t = ClearStatus) ?due"
    and later: "list_all (\<lambda>t. snd t = ClearStatus) ?later"
    by (simp_all add: list_all_iff)
  from fold_fire_clear [OF due, of L ?sys]
  obtain v where
    v: "fold (fire L) (map snd ?due) ?sys = ?sys\<lparr>st := (st ?sys)\<lparr>status := v\<rparr>\<rparr>"
    by blast
  have "tick L sys = fold (fire L) (map snd ?due) ?sys"
    using Suc.prems by (simp add: tick_def Let_def)
  with v have t: "tick L sys = ?sys\<lparr>st := (st ?sys)\<lparr>status := v\<rparr>\<rparr>"
    by simp
  have "advance L (Suc (Suc n)) sys = advance L (Suc n) (tick L sys)"
    by simp
  also have "\<dots> = (tick L sys)\<lparr>st := (st (tick L sys))
             \<lparr>status := ''success'',
              transactions :=
                \<lparr>tx_hash = txHash, tx_network = network state, tx_amount = amount state,
                 tx_timestamp = toLocaleString L D\<rparr> # transactions state,
              dailyRequestsLeft := dailyRequestsLeft state - 1,
              faucetBalance := (faucetBalance state)
                (network state := faucetBalance state (network state) - amount state),
              balance := Some 10,
              isLoading := False, captchaValue := ''''\<rparr>,
             clock := D,
             timers := filter (\<lambda>t. \<not> fst t \<le> D) ?later\<rparr>"
    by (rule Suc.IH) (use Suc.prems later in \<open>simp_all add: t\<close>)
  also have "filter (\<lambda>t. \<not> fst t \<le> D) ?later = filter (\<lambda>t. \<not> fst t \<le> D) cs"
    using Suc.prems(3) by (auto intro: filter_cong)
  finally show ?case
    by (intro system.equality) (simp_all add: t fun_upd_def)
qed

text \<open>On the other networks the call ends in the update after 2000 ms.\<close>

lemma call_simulated:
  assumes "isLoggedIn (st sys)" "0 < dailyRequestsLeft (st sys)"
    and "captchaValue (st sys) = ''12345''" and "network (st sys) \<noteq> solana"
    and "no_delay_pending sys"
  shows "handleSubmit_call L R sys =
           sys\<lparr>st := (st sys)
             \<lparr>status := ''success'',
              transactions :=
                \<lparr>tx_hash = id_now L (clock sys), tx_network = network (st sys),
                 tx_amount = amount (st sys),
                 tx_timestamp = toLocaleString L (clock sys + 2000)\<rparr>
                # transactions (st sys),
              dailyRequestsLeft := dailyRequestsLeft (st sys) - 1,
              faucetBalance := (faucetBalance (st sys))
                (network (st sys) :=
                   faucetBalance (st sys) (network (st sys)) - amount (st sys)),
              balance := Some 10,
              isLoading := False, captchaValue := ''''\<rparr>,
             clock := clock sys + 2000,
             timers := filter (\<lambda>t. \<not> fst t \<le> clock sys + 2000) (timers sys)\<rparr>"
proof -
  let ?sys = "spawn (handleSubmit L sys)"
  have "handleSubmit_call L R sys = advance L (Suc 1999) ?sys"
    using assms(4) by (simp add: handleSubmit_call_def Let_def)
  also have "\<dots> = ?sys\<lparr>st := (st ?sys)
             \<lparr>status := ''success'',
              transactions :=
                \<lparr>tx_hash = id_now L (clock sys), tx_network = network (st sys),
                 tx_amount = amount (st sys),
                 tx_timestamp = toLocaleString L (clock sys + 2000)\<rparr>
                # transactions (st sys),
              dailyRequestsLeft := dailyRequestsLeft (st sys) - 1,
              faucetBalance := (faucetBalance (st sys))
                (network (st sys) :=
                   faucetBalance (st sys) (network (st sys)) - amount (st sys)),
              balance := Some 10,
              isLoading := False, captchaValue := ''''\<rparr>,
             clock := clock sys + 2000,
             timers := filter (\<lambda>t. \<not> fst t \<le> clock sys + 2000) (timers sys)\<rparr>"
    by (rule advance_delay)
       (use assms in \<open>simp_all add: handleSubmit_simulated no_delay_pending_def\<close>)
  finally show ?thesis
    using assms
    by (intro system.equality) (simp_all add: handleSubmit_simulated fun_upd_def)
qed

text \<open>
  Claim C1. A call of \<open>handleSubmit\<close> whose preconditions hold and whose execution
  succeeds (on solana: the address parses and both promises are fulfilled; on the
  other networks: always, no other simulated request being asleep) puts exactly one
  new \<open>Transaction\<close> at the head of the ledger, takes one from \<open>dailyRequestsLeft\<close>
  and takes the requested amount from the pool of the network, whatever the pool
  held, leaving the other pools alone.
\<close>

theorem handleSubmit_call_success:
  assumes "isLoggedIn (st sys)" and "0 < dailyRequestsLeft (st sys)"
    and "captchaValue (st sys) = ''12345''"
    and "network (st sys) = solana \<longrightarrow>
           PublicKey L (address (st sys)) = Inr key \<and> requestAirdrop R = Inr txHash
           \<and> confirmTransaction R = Inr ()"
    and "network (st sys) \<noteq> solana \<longrightarrow>
           no_delay_pending sys \<and> txHash = id_now L (clock sys)"
  shows "transactions (st (handleSubmit_call L R sys)) =
           \<lparr>tx_hash = txHash, tx_network = network (st sys), tx_amount = amount (st sys),
            tx_timestamp = toLocaleString L (clock (handleSubmit_call L R sys))\<rparr>
           # transactions (st sys)
         \<and> length (transactions (st (handleSubmit_call L R sys))) =
             length (transactions (st sys)) + 1
         \<and> dailyRequestsLeft (st (handleSubmit_call L R sys)) = dailyRequestsLeft (st sys) - 1
         \<and> faucetBalance (st (handleSubmit_call L R sys)) (network (st sys)) =
             faucetBalance (st sys) (network (st sys)) - amount (st sys)
         \<and> (\<forall>k. k \<noteq> network (st sys) \<longrightarrow>
               faucetBalance (st (handleSubmit_call L R sys)) k = faucetBalance (st sys) k)"
proof (cases "network (st sys) = solana")
  case True
  with assms show ?thesis
    by (simp add: call_solana_success [where k = key and h = txHash and u = "()"])
next
  case False
  with assms show ?thesis
    by (simp add: call_simulated)
qed

theorem handleSubmit_call_success_witness:
  "isLoggedIn (st example_drained) \<and> 0 < dailyRequestsLeft (st example_drained)
   \<and> captchaValue (st example_drained) = ''12345''
   \<and> network (st example_drained) = solana
   \<and> PublicKey example_lib (address (st example_drained)) = Inr example_address
   \<and> faucetBalance (st example_drained) solana = 0.05
   \<and> length (transactions (st (handleSubmit_call example_lib example_replies example_drained))) = 1
   \<and> dailyRequestsLeft (st (handleSubmit_call example_lib example_replies example_drained)) = 4
   \<and> faucetBalance (st (handleSubmit_call example_lib example_replies example_drained)) solana
       = - 0.05
   \<and> no_delay_pending (example_session ethereum 1)
   \<and> dailyRequestsLeft (st (handleSubmit_call example_lib example_replies
         (example_session ethereum 1))) = 0
   \<and> faucetBalance (st (handleSubmit_call example_lib example_replies
         (example_session ethereum 1))) ethereum = 9.99"
  using handleSubmit_call_success [of example_drained example_lib example_address
      example_replies "''5VERv8NMvzbJMEkV8xnrLkEaWRtSz9CosKDYjCJjBRnb''"]
    handleSubmit_call_success [of "example_session ethereum 1" example_lib example_address
      example_replies "id_now example_lib 0"]
  by (simp add: example_drained_def example_session_def example_lib_def example_replies_def
      example_address_def initial_def initial_state_def updateState_def no_delay_pending_def)

text \<open>
  Claim C2. When the session is not logged in, or no request is left
  (\<open>dailyRequestsLeft\<close> is 0 or less), or the captcha is not \<open>12345\<close>, the call of
  \<open>handleSubmit\<close> returns at once: it suspends nothing and sets no timer but the one
  that clears the status; the status is \<open>error\<close>, and the ledger, the pools and
  \<open>dailyRequestsLeft\<close> are as before.
\<close>

theorem handleSubmit_precondition_failure:
  assumes "\<not> isLoggedIn (st sys) \<or> dailyRequestsLeft (st sys) \<le> 0
            \<or> captchaValue (st sys) \<noteq> ''12345''"
  shows "handleSubmit L sys =
           (sys\<lparr>st := (st sys)\<lparr>status := ''error''\<rparr>,
                timers := timers sys @ [(clock sys + 3000, ClearStatus)]\<rparr>, None)
         \<and> status (st (spawn (handleSubmit L sys))) = ''error''
         \<and> tasks (spawn (handleSubmit L sys)) = tasks sys
         \<and> transactions (st (spawn (handleSubmit L sys))) = transactions (st sys)
         \<and> faucetBalance (st (spawn (handleSubmit L sys))) = faucetBalance (st sys)
         \<and> dailyRequestsLeft (st (spawn (handleSubmit L sys))) = dailyRequestsLeft (st sys)"
  using assms by (simp add: handleSubmit_refused)

theorem handleSubmit_precondition_failure_witness:
  "dailyRequestsLeft (st (example_session solana 0)) = 0
   \<and> isLoggedIn (st (example_session solana 0))
   \<and> captchaValue (st (example_session solana 0)) = ''12345''
   \<and> snd (handleSubmit example_lib (example_session solana 0)) = None
   \<and> status (st (spawn (handleSubmit example_lib (example_session solana 0)))) = ''error''
   \<and> transactions (st (spawn (handleSubmit example_lib (example_session solana 0)))) = []
   \<and> faucetBalance (st (spawn (handleSubmit example_lib (example_session solana 0)))) solana
       = 1000
   \<and> dailyRequestsLeft (st (spawn (handleSubmit example_lib (example_session solana 0)))) = 0"
  using handleSubmit_precondition_failure [of "example_session solana 0" example_lib]
  by (simp add: example_session_def initial_def initial_state_def)

text \<open>
  Claim C4. A call of \<open>handleSubmit\<close> whose preconditions hold and whose execution
  fails (the address is refused or a promise of the client is rejected, which only
  solana can do) leaves the state it started from with the status \<open>error\<close>, the
  loading flag cleared and the captcha emptied: nothing of the error is kept, and
  \<open>dailyRequestsLeft\<close> and the ledger are as before.
\<close>

theorem handleSubmit_call_failure:
  assumes "isLoggedIn (st sys)" and "0 < dailyRequestsLeft (st sys)"
    and "captchaValue (st sys) = ''12345''" and "network (st sys) = solana"
    and "(\<exists>e. PublicKey L (address (st sys)) = Inl e) \<or> (\<exists>e. requestAirdrop R = Inl e)
          \<or> (\<exists>e. confirmTransaction R = Inl e)"
  shows "handleSubmit_call L R sys =
           sys\<lparr>st := (st sys)\<lparr>status := ''error'', isLoading := False,
                               captchaValue := ''''\<rparr>\<rparr>
         \<and> status (st (handleSubmit_call L R sys)) = ''error''
         \<and> dailyRequestsLeft (st (handleSubmit_call L R sys)) = dailyRequestsLeft (st sys)
         \<and> transactions (st (handleSubmit_call L R sys)) = transactions (st sys)
         \<and> \<not> isLoading (st (handleSubmit_call L R sys))"
  using assms by (simp add: call_solana_failure)

theorem handleSubmit_call_failure_witness:
  "isLoggedIn (st (example_session solana 5))
   \<and> 0 < dailyRequestsLeft (st (example_session solana 5))
   \<and> captchaValue (st (example_session solana 5)) = ''12345''
   \<and> network (st (example_session solana 5)) = solana
   \<and> requestAirdrop (example_replies\<lparr>requestAirdrop := Inl ''429 Too Many Requests''\<rparr>)
       = Inl ''429 Too Many Requests''
   \<and> status (st (handleSubmit_call example_lib
         (example_replies\<lparr>requestAirdrop := Inl ''429 Too Many Requests''\<rparr>)
         (example_session solana 5))) = ''error''
   \<and> dailyRequestsLeft (st (handleSubmit_call example_lib
         (example_replies\<lparr>requestAirdrop := Inl ''429 Too Many Requests''\<rparr>)
         (example_session solana 5))) = 5
   \<and> transactions (st (handleSubmit_call example_lib
         (example_replies\<lparr>requestAirdrop := Inl ''429 Too Many Requests''\<rparr>)
         (example_session solana 5))) = []
   \<and> \<not> isLoading (st (handleSubmit_call example_lib
         (example_replies\<lparr>requestAirdrop := Inl ''429 Too Many Requests''\<rparr>)
         (example_session solana 5)))"
  using handleSubmit_call_failure [of "example_session solana 5" example_lib
      "example_replies\<lparr>requestAirdrop := Inl ''429 Too Many Requests''\<rparr>"]
  by (simp add: example_session_def initial_def initial_state_def)

text \<open>
  Claim C10. A call of \<open>handleSubmit\<close> that passes the checks has emptied
  \<open>captchaValue\<close> when it completes, however the client answers; a call that fails
  a check returns at once and leaves \<open>captchaValue\<close> as it was.
\<close>

theorem handleSubmit_captcha:
  "(isLoggedIn (st sys) \<and> 0 < dailyRequestsLeft (st sys)
      \<and> captchaValue (st sys) = ''12345''
      \<and> (network (st sys) \<noteq> solana \<longrightarrow> no_delay_pending sys)
    \<longrightarrow> captchaValue (st (handleSubmit_call L R sys)) = '''')
   \<and> (\<not> isLoggedIn (st sys) \<or> dailyRequestsLeft (st sys) \<le> 0
        \<or> captchaValue (st sys) \<noteq> ''12345''
    \<longrightarrow> snd (handleSubmit L sys) = None
        \<and> captchaValue (st (spawn (handleSubmit L sys))) = captchaValue (st sys))"
proof (intro conjI impI)
  assume pre: "isLoggedIn (st sys) \<and> 0 < dailyRequestsLeft (st sys)
      \<and> captchaValue (st sys) = ''12345''
      \<and> (network (st sys) \<noteq> solana \<longrightarrow> no_delay_pending sys)"
  show "captchaValue (st (handleSubmit_call L R sys)) = ''''"
  proof (cases "network (st sys) = solana")
    case False
    with pre show ?thesis by (simp add: call_simulated)
  next
    case True
    show ?thesis
    proof (cases "(\<exists>e. PublicKey L (address (st sys)) = Inl e)
        \<or> (\<exists>e. requestAirdrop R = Inl e) \<or> (\<exists>e. confirmTransaction R = Inl e)")
      case failure: True
      with pre \<open>network (st sys) = solana\<close> show ?thesis
        by (simp add: call_solana_failure)
    next
      case False
      then obtain k h u where "PublicKey L (address (st sys)) = Inr k"
        and "requestAirdrop R = Inr h" and "confirmTransaction R = Inr u"
        by (metis old.sum.exhaust)
      with pre \<open>network (st sys) = solana\<close> show ?thesis
        by (simp add: call_solana_success [where k = k and h = h and u = u])
    qed
  qed
next
  assume "\<not> isLoggedIn (st sys) \<or> dailyRequestsLeft (st sys) \<le> 0
        \<or> captchaValue (st sys) \<noteq> ''12345''"
  then show "snd (handleSubmit L sys) = None"
    and "captchaValue (st (spawn (handleSubmit L sys))) = captchaValue (st sys)"
    by (simp_all add: handleSubmit_refused)
qed

theorem handleSubmit_captcha_witness:
  "isLoggedIn (st (example_session solana 5))
   \<and> 0 < dailyRequestsLeft (st (example_session solana 5))
   \<and> captchaValue (st (example_session solana 5)) = ''12345''
   \<and> captchaValue (st (handleSubmit_call example_lib example_replies
         (example_session solana 5))) = ''''
   \<and> captchaValue (st (handleSubmit_call example_lib
         (example_replies\<lparr>confirmTransaction := Inl ''timeout''\<rparr>)
         (example_session solana 5))) = ''''
   \<and> no_delay_pending (example_session bsc 5)
   \<and> captchaValue (st (handleSubmit_call example_lib example_replies
         (example_session bsc 5))) = ''''
   \<and> captchaValue (st (updateState [CaptchaValue ''00000''] (example_session solana 5)))
       \<noteq> ''12345''
   \<and> captchaValue (st (spawn (handleSubmit example_lib
         (updateState [CaptchaValue ''00000''] (example_session solana 5))))) = ''00000''"
  using handleSubmit_captcha [of "example_session solana 5" example_lib example_replies]
    handleSubmit_captcha [of "example_session solana 5" example_lib
      "example_replies\<lparr>confirmTransaction := Inl ''timeout''\<rparr>"]
    handleSubmit_captcha [of "example_session bsc 5" example_lib example_replies]
    handleSubmit_captcha [of "updateState [CaptchaValue ''00000''] (example_session solana 5)"
      example_lib example_replies]
  by (simp add: example_session_def initial_def initial_state_def updateState_def
      no_delay_pending_def)

subsection \<open>Login and logout\<close>

text \<open>
  Claim C3. \<open>handleLogin\<close> logs a logged-out session in exactly when the username is
  \<open>demo\<close> and the password is \<open>password\<close>. When they are, it sets the logged-in
  flag and \<open>dailyRequestsLeft\<close> to 5 and nothing else; when they are not, it sets the
  status to \<open>error\<close> and a timer of 3000 ms that clears the status, and nothing
  else.
\<close>

theorem handleLogin_credentials:
  "(\<not> isLoggedIn (st sys) \<longrightarrow>
      (isLoggedIn (st (handleLogin sys)) \<longleftrightarrow>
         username (st sys) = ''demo'' \<and> password (st sys) = ''password''))
   \<and> (username (st sys) = ''demo'' \<and> password (st sys) = ''password'' \<longrightarrow>
        handleLogin sys = sys\<lparr>st := (st sys)\<lparr>isLoggedIn := True, dailyRequestsLeft := 5\<rparr>\<rparr>
        \<and> dailyRequestsLeft (st (handleLogin sys)) = 5)
   \<and> (\<not> (username (st sys) = ''demo'' \<and> password (st sys) = ''password'') \<longrightarrow>
        handleLogin sys =
          sys\<lparr>st := (st sys)\<lparr>status := ''error''\<rparr>,
              timers := timers sys @ [(clock sys + 3000, ClearStatus)]\<rparr>
        \<and> fire L ClearStatus (handleLogin sys) =
          sys\<lparr>st := (st sys)\<lparr>status := ''''\<rparr>,
              timers := timers sys @ [(clock sys + 3000, ClearStatus)]\<rparr>)"
  by (simp add: handleLogin_def updateState_def setTimeout_def Let_def)

theorem handleLogin_credentials_witness:
  "\<not> isLoggedIn (st (updateState [Username ''demo'', Password ''password''] initial))
   \<and> username (st (updateState [Username ''demo'', Password ''password''] initial)) = ''demo''
   \<and> password (st (updateState [Username ''demo'', Password ''password''] initial))
       = ''password''
   \<and> isLoggedIn (st (handleLogin
         (updateState [Username ''demo'', Password ''password''] initial)))
   \<and> dailyRequestsLeft (st (handleLogin
         (updateState [Username ''demo'', Password ''password''] initial))) = 5
   \<and> password (st (updateState [Username ''demo'', Password ''Password''] initial))
       \<noteq> ''password''
   \<and> \<not> isLoggedIn (st (handleLogin
         (updateState [Username ''demo'', Password ''Password''] initial)))
   \<and> status (st (handleLogin
         (updateState [Username ''demo'', Password ''Password''] initial))) = ''error''
   \<and> timers (handleLogin
         (updateState [Username ''demo'', Password ''Password''] initial))
       = [(3000, ClearStatus)]"
  using handleLogin_credentials
      [of "updateState [Username ''demo'', Password ''password''] initial"]
    handleLogin_credentials
      [of "updateState [Username ''demo'', Password ''Password''] initial"]
  by (simp add: initial_def initial_state_def updateState_def)

text \<open>
  Claim C7, as amended. \<open>handleLogout\<close> clears the logged-in flag, the username and
  the password and leaves every other field of the state as it was:
  \<open>dailyRequestsLeft\<close> keeps its value, and so do the ledger and the pools.
\<close>

theorem handleLogout_frame:
  "handleLogout sys =
     sys\<lparr>st := (st sys)\<lparr>isLoggedIn := False, username := '''', password := ''''\<rparr>\<rparr>
   \<and> \<not> isLoggedIn (st (handleLogout sys))
   \<and> username (st (handleLogout sys)) = '''' \<and> password (st (handleLogout sys)) = ''''
   \<and> dailyRequestsLeft (st (handleLogout sys)) = dailyRequestsLeft (st sys)
   \<and> transactions (st (handleLogout sys)) = transactions (st sys)
   \<and> faucetBalance (st (handleLogout sys)) = faucetBalance (st sys)"
  by (simp add: handleLogout_def updateState_def)

text \<open>
  Claim C7 as stated fails: logout does not clear \<open>dailyRequestsLeft\<close>. A session
  logged out with 3 requests left still has 3, one logged out with 2 still has 2.
\<close>

theorem handleLogout_keeps_quota_counterexample:
  "dailyRequestsLeft (st (handleLogout (example_session solana 3))) = 3
   \<and> dailyRequestsLeft (st (handleLogout (example_session solana 2))) = 2
   \<and> dailyRequestsLeft (st (handleLogout (example_session solana 3)))
       \<noteq> dailyRequestsLeft (st (handleLogout (example_session solana 2)))"
  by (simp add: handleLogout_def updateState_def example_session_def)

subsection \<open>The balance lookup\<close>

text \<open>
  Claim C9. On solana \<open>checkBalance\<close> suspends at the live read, and the lamports
  read, divided by 10 to the power of the network's decimals (9), become the
  balance; a refused address or a rejected read sets the balance to null. On every
  other network it sets the balance to 10 at once, without a read. Nothing else
  changes.
\<close>

theorem checkBalance_result:
  "(network (st sys) = solana \<and> PublicKey L (address (st sys)) = Inr key \<longrightarrow>
      checkBalance L False (st sys) sys = (sys, Some (GetBalance False))
      \<and> checkBalance_call L (Inr lamports) sys =
          sys\<lparr>st := (st sys)\<lparr>balance := Some (lamports / 10 ^ decimals (networks solana))\<rparr>\<rparr>
      \<and> checkBalance_call L (Inl e) sys = sys\<lparr>st := (st sys)\<lparr>balance := None\<rparr>\<rparr>)
   \<and> (network (st sys) = solana \<and> PublicKey L (address (st sys)) = Inl e \<longrightarrow>
      checkBalance_call L r sys = sys\<lparr>st := (st sys)\<lparr>balance := None\<rparr>\<rparr>)
   \<and> (network (st sys) \<noteq> solana \<longrightarrow>
      checkBalance L False (st sys) sys = (sys\<lparr>st := (st sys)\<lparr>balance := Some 10\<rparr>\<rparr>, None)
      \<and> checkBalance_call L r sys = sys\<lparr>st := (st sys)\<lparr>balance := Some 10\<rparr>\<rparr>)"
  by (simp add: checkBalance_call_def checkBalance_def settle_def returned_def
      updateState_def LAMPORTS_PER_SOL_def Let_def)

theorem checkBalance_result_witness:
  "network (st (example_session solana 5)) = solana
   \<and> PublicKey example_lib (address (st (example_session solana 5))) = Inr example_address
   \<and> balance (st (checkBalance_call example_lib (Inr 2500000000) (example_session solana 5)))
       = Some 2.5
   \<and> balance (st (checkBalance_call example_lib (Inr 0) (example_session solana 5)))
       = Some 0
   \<and> balance (st (checkBalance_call example_lib (Inl ''fetch failed'')
         (example_session solana 5))) = None
   \<and> PublicKey example_lib
         (address (st (updateState [Address ''abc''] (example_session solana 5))))
       = Inl ''Invalid public key input''
   \<and> balance (st (checkBalance_call example_lib (Inr 2500000000)
         (updateState [Address ''abc''] (example_session solana 5)))) = None
   \<and> network (st (example_session polygon 5)) \<noteq> solana
   \<and> balance (st (checkBalance_call example_lib (Inr 2500000000)
         (example_session polygon 5))) = Some 10"
  using checkBalance_result [of "example_session solana 5" example_lib example_address
      2500000000 "''fetch failed''"]
    checkBalance_result [of "example_session solana 5" example_lib example_address
      0 "''fetch failed''"]
    checkBalance_result [of "updateState [Address ''abc''] (example_session solana 5)"
      example_lib example_address 0 "''Invalid public key input''" "Inr 2500000000"]
    checkBalance_result [of "example_session polygon 5" example_lib example_address
      0 "''fetch failed''" "Inr 2500000000"]
  by (simp add: example_session_def initial_def initial_state_def updateState_def
      example_lib_def example_address_def)

subsection \<open>The request counter never goes below zero\<close>

text \<open>
  The invariant \<open>quota_inv\<close>: the counter is not negative, and every request in
  flight was made from a state with a positive counter. Each piece of the
  component keeps it.
\<close>

lemma quota_inv_initial: "quota_inv initial"
  by (simp add: quota_inv_def initial_def initial_state_def)

lemma quota_inv_returned:
  "quota_inv sys \<Longrightarrow> quota_inv (returned awaited sys)"
  by (simp add: quota_inv_def returned_def handleSubmit_finally_def updateState_def)

lemma quota_inv_checkBalance:
  assumes "quota_inv sys"
  shows "quota_inv (fst (checkBalance L awaited state sys))
         \<and> (\<forall>t. snd (checkBalance L awaited state sys) = Some t \<longrightarrow> task_checked t)"
proof -
  have "quota_inv (returned awaited (updateState [Balance b] sys))" for b
    using assms by (simp add: quota_inv_def returned_def handleSubmit_finally_def updateState_def)
  with assms show ?thesis
    by (auto simp add: checkBalance_def split: sum.split)
qed

lemma quota_inv_handleSubmit_success:
  assumes "quota_inv sys" and "0 < dailyRequestsLeft state"
  shows "quota_inv (fst (handleSubmit_success L state txHash sys))
         \<and> (\<forall>t. snd (handleSubmit_success L state txHash sys) = Some t \<longrightarrow> task_checked t)"
  unfolding handleSubmit_success_def Let_def
  by (rule quota_inv_checkBalance)
     (use assms in \<open>simp add: quota_inv_def updateState_def\<close>)

lemma quota_inv_failed:
  "quota_inv sys \<Longrightarrow> quota_inv (handleSubmit_finally (handleSubmit_catch error sys))"
  by (simp add: quota_inv_def handleSubmit_finally_def handleSubmit_catch_def updateState_def)

lemma quota_inv_handleSubmit:
  assumes "quota_inv sys"
  shows "quota_inv (fst (handleSubmit L sys))
         \<and> (\<forall>t. snd (handleSubmit L sys) = Some t \<longrightarrow> task_checked t)"
  using assms
  by (auto simp add: handleSubmit_def Let_def quota_inv_def updateState_def setTimeout_def
      handleSubmit_finally_def handleSubmit_catch_def split: sum.split)

lemma quota_inv_resume:
  assumes "quota_inv sys" and "task_checked t"
  shows "quota_inv (fst (resume L t r sys))
         \<and> (\<forall>t'. snd (resume L t r sys) = Some t' \<longrightarrow> task_checked t')"
proof (cases t)
  case (RequestAirdrop state)
  with assms show ?thesis
    by (cases r) (simp_all add: quota_inv_failed)
next
  case (ConfirmTransaction state txHash)
  with assms show ?thesis
    by (cases r) (simp_all add: quota_inv_failed quota_inv_handleSubmit_success)
next
  case (GetBalance awaited)
  have "quota_inv (returned awaited (updateState [Balance b] sys))" for b
    using assms(1)
    by (simp add: quota_inv_def returned_def handleSubmit_finally_def updateState_def)
  with assms GetBalance show ?thesis
    by (cases r) simp_all
qed

lemma quota_inv_spawn:
  assumes "quota_inv (fst p)" and "\<forall>t. snd p = Some t \<longrightarrow> task_checked t"
  shows "quota_inv (spawn p)"
  using assms by (cases p; cases "snd p") (auto simp add: quota_inv_def)

lemma quota_inv_settle:
  assumes "quota_inv sys"
  shows "quota_inv (settle L i r sys)"
proof (cases "i < length (tasks sys)")
  case False
  with assms show ?thesis by (simp add: settle_def)
next
  case True
  let ?p = "resume L (tasks sys ! i) r sys"
  from True assms have "task_checked (tasks sys ! i)"
    by (simp add: quota_inv_def list_all_length)
  with assms have p: "quota_inv (fst ?p)" "\<forall>t. snd ?p = Some t \<longrightarrow> task_checked t"
    using quota_inv_resume by blast+
  obtain sys' ot where eq: "resume L (tasks sys ! i) r sys = (sys', ot)"
    by (cases ?p)
  with p have "quota_inv sys'" and "\<forall>t. ot = Some t \<longrightarrow> task_checked t"
    by simp_all
  with True eq show ?thesis
    by (cases ot)
       (auto simp add: settle_def quota_inv_def list_all_iff
          dest: in_set_takeD in_set_dropD set_update_subset_insert [THEN subsetD])
qed

lemma quota_inv_fire:
  assumes "quota_inv sys" and "callback_checked c"
  shows "quota_inv (fire L c sys)"
proof (cases c)
  case ClearStatus
  with assms show ?thesis by (simp add: quota_inv_def updateState_def)
next
  case (ResolveDelay state txHash)
  with assms show ?thesis
    by (simp add: quota_inv_spawn quota_inv_handleSubmit_success)
qed

lemma quota_inv_fold_fire:
  assumes "quota_inv sys" and "list_all callback_checked cs"
  shows "quota_inv (fold (fire L) cs sys)"
  using assms by (induction cs arbitrary: sys) (simp_all add: quota_inv_fire)

lemma quota_inv_tick:
  assumes "quota_inv sys"
  shows "quota_inv (tick L sys)"
  unfolding tick_def Let_def
  by (rule quota_inv_fold_fire)
     (use assms in \<open>auto simp add: quota_inv_def list_all_iff\<close>)

lemma quota_inv_advance:
  "quota_inv sys \<Longrightarrow> quota_inv (advance L n sys)"
  by (induction n arbitrary: sys) (simp_all add: quota_inv_tick)

lemma quota_inv_commit:
  "quota_inv sys \<Longrightarrow> quota_inv (commit sys)"
  by (simp add: commit_def Let_def quota_inv_def)

lemma quota_inv_handle:
  assumes "quota_inv sys"
  shows "quota_inv (handle L e sys)"
proof (cases e)
  case Login
  with assms show ?thesis
    by (simp add: handleLogin_def Let_def quota_inv_def updateState_def setTimeout_def)
next
  case Submit
  with assms show ?thesis
    by (simp add: quota_inv_spawn quota_inv_handleSubmit)
next
  case CheckBalance
  with assms show ?thesis
    by (simp add: quota_inv_spawn quota_inv_checkBalance)
next
  case (Settle i r)
  with assms show ?thesis by (simp add: quota_inv_settle)
next
  case (Elapse n)
  with assms show ?thesis by (simp add: quota_inv_advance)
qed (use assms in \<open>simp_all add: quota_inv_def updateState_def handleLogout_def\<close>)

lemma quota_inv_run:
  "quota_inv sys \<Longrightarrow> quota_inv (run L es sys)"
  unfolding run_def
  by (induction es arbitrary: sys) (simp_all add: step_def quota_inv_commit quota_inv_handle)

text \<open>
  Claim C5. Whatever happens to the component after its first render, and in
  whatever order (calls may overlap, promises may settle late, timers may run in
  between), \<open>dailyRequestsLeft\<close> is never negative.
\<close>

theorem dailyRequestsLeft_nonnegative:
  "0 \<le> dailyRequestsLeft (st (run L es initial))"
  using quota_inv_run [OF quota_inv_initial, of L es]
  by (simp add: quota_inv_def)

text \<open>
  The five requests use the counter up; the sixth submission, with the right
  captcha, is refused and leaves it at 0.
\<close>

theorem dailyRequestsLeft_nonnegative_witness:
  "dailyRequestsLeft (st (run example_lib six_requests initial)) = 0
   \<and> length (transactions (st (run example_lib six_requests initial))) = 5
   \<and> status (st (run example_lib six_requests initial)) = ''error''
   \<and> 0 \<le> dailyRequestsLeft (st (run example_lib six_requests initial))"
proof -
  have "dailyRequestsLeft (st (run example_lib six_requests initial)) = 0"
    and "length (transactions (st (run example_lib six_requests initial))) = 5"
    and "status (st (run example_lib six_requests initial)) = ''error''"
    by code_simp+
  with dailyRequestsLeft_nonnegative [of example_lib six_requests]
  show ?thesis by simp
qed

subsection \<open>Time passing with no simulated request asleep\<close>

lemma fold_fire_clear_all:
  assumes "list_all (\<lambda>t. snd t = ClearStatus) cs"
  shows "fold (fire L) (map snd cs) sys =
           (if cs = [] then sys else sys\<lparr>st := (st sys)\<lparr>status := ''''\<rparr>\<rparr>)"
  using assms
proof (induction cs arbitrary: sys)
  case Nil
  show ?case by simp
next
  case (Cons c cs)
  then have "fold (fire L) (map snd (c # cs)) sys =
      fold (fire L) (map snd cs) (sys\<lparr>st := (st sys)\<lparr>status := ''''\<rparr>\<rparr>)"
    by (simp add: updateState_def)
  with Cons show ?case by simp
qed

lemma tick_idle:
  assumes "no_delay_pending sys"
  shows "tick L sys =
           sys\<lparr>st := (if list_ex (\<lambda>t. fst t \<le> clock sys + 1) (timers sys)
                       then (st sys)\<lparr>status := ''''\<rparr> else st sys),
               clock := clock sys + 1,
               timers := filter (\<lambda>t. \<not> fst t \<le> clock sys + 1) (timers sys)\<rparr>"
proof -
  let ?due = "filter (\<lambda>t. fst t \<le> clock sys + 1) (timers sys)"
  from assms have "list_all (\<lambda>t. snd t = ClearStatus) ?due"
    by (simp add: no_delay_pending_def list_all_iff)
  then show ?thesis
    by (intro system.equality)
       (auto simp add: tick_def Let_def fold_fire_clear_all filter_empty_conv list_ex_iff)
qed

lemma advance_Suc_tick: "advance L (Suc n) sys = tick L (advance L n sys)"
  by (induction n arbitrary: sys) simp_all

lemma advance_idle:
  assumes "no_delay_pending sys"
  shows "advance L (Suc n) sys =
           sys\<lparr>st := (if list_ex (\<lambda>t. fst t \<le> clock sys + Suc n) (timers sys)
                       then (st sys)\<lparr>status := ''''\<rparr> else st sys),
               clock := clock sys + Suc n,
               timers := filter (\<lambda>t. \<not> fst t \<le> clock sys + Suc n) (timers sys)\<rparr>"
proof (induction n)
  case 0
  from assms show ?case by (simp add: tick_idle)
next
  case (Suc n)
  let ?sys = "advance L (Suc n) sys"
  from assms have idle: "no_delay_pending ?sys"
    by (subst Suc) (simp add: no_delay_pending_def list_all_iff)
  have clock: "clock ?sys = clock sys + Suc n"
    and timers: "timers ?sys = filter (\<lambda>t. \<not> fst t \<le> clock sys + Suc n) (timers sys)"
    and st: "st ?sys = (if list_ex (\<lambda>t. fst t \<le> clock sys + Suc n) (timers sys)
                       then (st sys)\<lparr>status := ''''\<rparr> else st sys)"
    and rest: "mounted ?sys = mounted sys" "deps ?sys = deps sys" "tasks ?sys = tasks sys"
      "system.more ?sys = system.more sys"
    by (subst Suc, simp del: advance.simps)+
  have "advance L (Suc (Suc n)) sys = tick L ?sys"
    by (rule advance_Suc_tick)
  also have "\<dots> =
      ?sys\<lparr>st := (if list_ex (\<lambda>t. fst t \<le> clock ?sys + 1) (timers ?sys)
                       then (st ?sys)\<lparr>status := ''''\<rparr> else st ?sys),
               clock := clock ?sys + 1,
               timers := filter (\<lambda>t. \<not> fst t \<le> clock ?sys + 1) (timers ?sys)\<rparr>"
    by (rule tick_idle [OF idle])
  finally have eq: "advance L (Suc (Suc n)) sys =
      ?sys\<lparr>st := (if list_ex (\<lambda>t. fst t \<le> clock ?sys + 1) (timers ?sys)
                       then (st ?sys)\<lparr>status := ''''\<rparr> else st ?sys),
               clock := clock ?sys + 1,
               timers := filter (\<lambda>t. \<not> fst t \<le> clock ?sys + 1) (timers ?sys)\<rparr>" .
  show ?case
  proof (rule system.equality)
    show "st (advance L (Suc (Suc n)) sys) =
       st (sys\<lparr>st := (if list_ex (\<lambda>t. fst t \<le> clock sys + Suc (Suc n)) (timers sys)
                       then (st sys)\<lparr>status := ''''\<rparr> else st sys),
               clock := clock sys + Suc (Suc n),
               timers := filter (\<lambda>t. \<not> fst t \<le> clock sys + Suc (Suc n)) (timers sys)\<rparr>)"
      by (subst eq) (auto simp add: clock timers st list_ex_iff simp del: advance.simps; fastforce)
    show "timers (advance L (Suc (Suc n)) sys) =
       timers (sys\<lparr>st := (if list_ex (\<lambda>t. fst t \<le> clock sys + Suc (Suc n)) (timers sys)
                       then (st sys)\<lparr>status := ''''\<rparr> else st sys),
               clock := clock sys + Suc (Suc n),
               timers := filter (\<lambda>t. \<not> fst t \<le> clock sys + Suc (Suc n)) (timers sys)\<rparr>)"
      by (subst eq) (auto simp add: clock timers simp del: advance.simps intro: filter_cong)
  qed (subst eq, simp add: clock rest del: advance.simps)+
qed

lemma advance_no_timers:
  assumes "timers sys = []"
  shows "advance L n sys = sys\<lparr>clock := clock sys + n\<rparr>"
  using assms
proof (induction n arbitrary: sys)
  case 0
  show ?case by simp
next
  case (Suc n)
  then have "tick L sys = sys\<lparr>clock := clock sys + 1\<rparr>"
    by (intro system.equality) (simp_all add: tick_def)
  with Suc show ?case by simp
qed

subsection \<open>The status notification\<close>

text \<open>
  After a failed login the status is \<open>error\<close> for 3000 ms and empty from then on,
  and likewise after a failed check of \<open>handleSubmit\<close>: both set the timer.
\<close>

lemma handleLogin_error_clears:
  assumes "\<not> (username (st sys) = ''demo'' \<and> password (st sys) = ''password'')"
    and "timers sys = []"
  shows "status (st (advance L n (handleLogin sys))) = (if n < 3000 then ''error'' else '''')"
proof (cases n)
  case 0
  with assms show ?thesis
    by (auto simp add: handleLogin_def updateState_def setTimeout_def Let_def)
next
  case (Suc m)
  have "no_delay_pending (handleLogin sys)"
    using assms
    by (simp add: handleLogin_def updateState_def setTimeout_def no_delay_pending_def Let_def)
  from advance_idle [OF this, of L m] Suc assms show ?thesis
    by (auto simp add: handleLogin_def updateState_def setTimeout_def Let_def)
qed

lemma handleSubmit_error_clears:
  assumes "\<not> isLoggedIn (st sys) \<or> dailyRequestsLeft (st sys) \<le> 0
            \<or> captchaValue (st sys) \<noteq> ''12345''"
    and "timers sys = []"
  shows "status (st (advance L n (spawn (handleSubmit L sys))))
           = (if n < 3000 then ''error'' else '''')"
proof (cases n)
  case 0
  with assms show ?thesis
    by (simp add: handleSubmit_refused)
next
  case (Suc m)
  have "no_delay_pending (spawn (handleSubmit L sys))"
    using assms by (simp add: handleSubmit_refused no_delay_pending_def)
  from advance_idle [OF this, of L m] Suc assms show ?thesis
    by (simp add: handleSubmit_refused)
qed

text \<open>
  After a request that failed in its execution the status is \<open>error\<close> and no timer
  is set: with no timer pending, it stays \<open>error\<close> however much time passes.
\<close>

lemma handleSubmit_call_error_stays:
  assumes "isLoggedIn (st sys)" and "0 < dailyRequestsLeft (st sys)"
    and "captchaValue (st sys) = ''12345''" and "network (st sys) = solana"
    and "(\<exists>e. PublicKey L (address (st sys)) = Inl e) \<or> (\<exists>e. requestAirdrop R = Inl e)
          \<or> (\<exists>e. confirmTransaction R = Inl e)"
    and "timers sys = []"
  shows "status (st (advance L n (handleSubmit_call L R sys))) = ''error''"
  using assms by (simp add: call_solana_failure advance_no_timers)

lemma run_snoc: "run L (es @ [e]) sys = step L e (run L es sys)"
  by (simp add: run_def)

lemma run_wrong_login:
  "run L wrong_login initial =
     initial\<lparr>st := initial_state\<lparr>username := ''demo'', password := ''Password'',
                                 status := ''error''\<rparr>,
             mounted := True, deps := (solana, True),
             timers := [(3000, ClearStatus)]\<rparr>"
  by (simp add: wrong_login_def run_def step_def commit_def handleLogin_def updateState_def
      setTimeout_def initial_def initial_state_def Let_def)

lemma run_rejected_request:
  "run example_lib rejected_request initial =
     initial\<lparr>st := initial_state\<lparr>username := ''demo'', password := ''password'',
                                 isLoggedIn := True, address := example_address,
                                 status := ''error''\<rparr>,
             mounted := True, deps := (solana, True)\<rparr>"
  by (simp add: rejected_request_def run_def step_def commit_def handleLogin_def
      updateState_def handleSubmit_def settle_def handleSubmit_catch_def
      handleSubmit_finally_def example_lib_def example_address_def initial_def
      initial_state_def Let_def)

text \<open>The wrong login, from the first render: the notification is gone after 3000 ms.\<close>

lemma wrong_login_status:
  "status (st (run L wrong_login initial)) = ''error''
   \<and> status (st (run L (wrong_login @ [Elapse 2999]) initial)) = ''error''
   \<and> status (st (run L (wrong_login @ [Elapse 3000]) initial)) = ''''"
proof -
  let ?sys = "run L wrong_login initial"
  have idle: "no_delay_pending ?sys"
    by (simp add: run_wrong_login) (simp add: no_delay_pending_def initial_def)
  have "clock ?sys = 0" and "timers ?sys = [(3000, ClearStatus)]"
    and "status (st ?sys) = ''error''" and "deps ?sys = (network (st ?sys), mounted ?sys)"
    by (simp_all add: run_wrong_login) (simp_all add: initial_def initial_state_def)
  with advance_idle [OF idle, of L 2998] advance_idle [OF idle, of L 2999]
  show ?thesis
    by (simp add: run_snoc step_def commit_def Let_def)
qed

text \<open>
  Claim C6: every error status clears itself 3000 ms after it was set. The code
  does so after a failed login and after a failed check, as shown above, but not
  after a failed execution. For the request that the client rejects, from the first
  render: the status is \<open>error\<close>, no timer is pending, and the status is still
  \<open>error\<close> after 3000 ms and after any other time.
\<close>

theorem rejected_request_status_stays:
  "status (st (run example_lib rejected_request initial)) = ''error''
   \<and> timers (run example_lib rejected_request initial) = []
   \<and> status (st (run example_lib (rejected_request @ [Elapse 3000]) initial)) = ''error''
   \<and> status (st (run example_lib (rejected_request @ [Elapse n]) initial)) = ''error''"
proof -
  let ?sys = "run example_lib rejected_request initial"
  have none: "timers ?sys = []"
    by (simp add: run_rejected_request) (simp add: initial_def)
  have "status (st ?sys) = ''error''" and "deps ?sys = (network (st ?sys), mounted ?sys)"
    by (simp_all add: run_rejected_request) (simp_all add: initial_def initial_state_def)
  with none show ?thesis
    by (simp add: run_snoc step_def commit_def Let_def advance_no_timers)
qed

subsection \<open>Switching the network\<close>

text \<open>Only the mount effect writes \<open>mounted\<close>.\<close>

lemma mounted_returned [simp]: "mounted (returned awaited sys) = mounted sys"
  by (simp add: returned_def handleSubmit_finally_def updateState_def)

lemma mounted_checkBalance [simp]:
  "mounted (fst (checkBalance L awaited state sys)) = mounted sys"
  by (simp add: checkBalance_def updateState_def split: sum.split)

lemma mounted_handleSubmit_success [simp]:
  "mounted (fst (handleSubmit_success L state txHash sys)) = mounted sys"
  by (simp add: handleSubmit_success_def Let_def updateState_def)

lemma mounted_handleSubmit [simp]: "mounted (fst (handleSubmit L sys)) = mounted sys"
  by (simp add: handleSubmit_def Let_def updateState_def setTimeout_def
      handleSubmit_finally_def handleSubmit_catch_def split: sum.split)

lemma mounted_spawn [simp]: "mounted (spawn p) = mounted (fst p)"
  by (cases p; cases "snd p") simp_all

lemma mounted_resume [simp]: "mounted (fst (resume L t r sys)) = mounted sys"
  by (cases t; cases r)
     (simp_all add: handleSubmit_finally_def handleSubmit_catch_def updateState_def)

lemma mounted_settle [simp]: "mounted (settle L i r sys) = mounted sys"
proof (cases "i < length (tasks sys)")
  case True
  obtain sys' ot where eq: "resume L (tasks sys ! i) r sys = (sys', ot)"
    by (cases "resume L (tasks sys ! i) r sys")
  then have "mounted sys' = mounted sys"
    using mounted_resume [of L "tasks sys ! i" r sys] by simp
  with True eq show ?thesis
    by (cases ot) (simp_all add: settle_def)
qed (simp add: settle_def)

lemma mounted_fire [simp]: "mounted (fire L c sys) = mounted sys"
  by (cases c) (simp_all add: updateState_def)

lemma mounted_fold_fire [simp]: "mounted (fold (fire L) cs sys) = mounted sys"
  by (induction cs arbitrary: sys) simp_all

lemma mounted_tick [simp]: "mounted (tick L sys) = mounted sys"
  by (simp add: tick_def Let_def)

lemma mounted_advance [simp]: "mounted (advance L n sys) = mounted sys"
  by (induction n arbitrary: sys) simp_all

lemma mounted_handle: "mounted sys \<Longrightarrow> mounted (handle L e sys)"
  by (cases e) (simp_all add: updateState_def handleLogin_def handleLogout_def
      setTimeout_def Let_def)

text \<open>After every render the network effect has seen the current dependencies.\<close>

lemma rendered_commit: "mounted sys \<Longrightarrow> rendered (commit sys)"
  by (auto simp add: rendered_def commit_def Let_def)

lemma rendered_step: "rendered sys \<Longrightarrow> rendered (step L e sys)"
  unfolding step_def
  by (rule rendered_commit, rule mounted_handle) (simp add: rendered_def)

lemma rendered_run: "rendered sys \<Longrightarrow> rendered (run L es sys)"
  unfolding run_def by (induction es arbitrary: sys) (simp_all add: rendered_step)

lemma rendered_mounted: "rendered (run L (Mount # es) initial)"
proof -
  have "rendered (step L Mount initial)"
    by (simp add: step_def rendered_commit)
  then have "rendered (run L es (step L Mount initial))"
    by (rule rendered_run)
  then show ?thesis by (simp add: run_def)
qed

lemma select_network:
  assumes "rendered sys" and "k \<noteq> network (st sys)"
  shows "step L (SelectNetwork k) sys =
           sys\<lparr>st := (st sys)\<lparr>network := k, amount := tokenOptions k ! 0\<rparr>,
               deps := (k, True)\<rparr>"
  using assms
  by (auto simp add: step_def commit_def updateState_def rendered_def Let_def)

lemma tokenOptions_smallest_first:
  "tokenOptions k \<noteq> [] \<and> sorted (tokenOptions k)
   \<and> Min (set (tokenOptions k)) = tokenOptions k ! 0"
  by (cases k) simp_all

text \<open>
  Claim C8. At any point after the component has mounted, selecting a network
  other than the active one makes it the active network and sets the amount to the
  first element of its list in \<open>tokenOptions\<close>; every list is in ascending order,
  so this is its smallest option.
\<close>

theorem select_network_resets_amount:
  assumes "k \<noteq> network (st (run L (Mount # es) initial))"
  shows "network (st (run L (Mount # es @ [SelectNetwork k]) initial)) = k
         \<and> amount (st (run L (Mount # es @ [SelectNetwork k]) initial)) = tokenOptions k ! 0
         \<and> tokenOptions k \<noteq> [] \<and> sorted (tokenOptions k)
         \<and> Min (set (tokenOptions k)) = tokenOptions k ! 0"
proof -
  have "run L (Mount # es @ [SelectNetwork k]) initial =
      step L (SelectNetwork k) (run L (Mount # es) initial)"
    using run_snoc [of L "Mount # es"] by simp
  with select_network [OF rendered_mounted assms] tokenOptions_smallest_first [of k]
  show ?thesis by simp
qed

theorem select_network_resets_amount_witness:
  "ethereum \<noteq> network (st (run example_lib (Mount # [SelectAmount 1]) initial))
   \<and> amount (st (run example_lib (Mount # [SelectAmount 1]) initial)) = 1
   \<and> network (st (run example_lib (Mount # [SelectAmount 1] @ [SelectNetwork ethereum])
         initial)) = ethereum
   \<and> amount (st (run example_lib (Mount # [SelectAmount 1] @ [SelectNetwork ethereum])
         initial)) = 0.01
   \<and> Min (set (tokenOptions ethereum)) = 0.01"
proof -
  have "run example_lib (Mount # [SelectAmount 1]) initial =
      initial\<lparr>st := initial_state\<lparr>amount := 1\<rparr>, mounted := True, deps := (solana, True)\<rparr>"
    by (simp add: run_def step_def commit_def updateState_def initial_def initial_state_def
        Let_def)
  then have "ethereum \<noteq> network (st (run example_lib (Mount # [SelectAmount 1]) initial))"
    and "amount (st (run example_lib (Mount # [SelectAmount 1]) initial)) = 1"
    by (simp_all add: initial_state_def)
  with select_network_resets_amount [of ethereum example_lib "[SelectAmount 1]"]
  show ?thesis by simp
qed

end
